theory Spec2Isabelle
  imports Complex_Main "HOL-Library.Sublist" "HOL-Library.Multiset"
begin

section \<open>JavaScript values and strings\<close>

text \<open>
  The request body is what \<open>express.json()\<close> hands to the handlers: a parsed JSON
  object, modelled as a map from field names to values. A value is one of the following;
  a number is modelled by its real value (only whether it is zero matters to the
  handlers).
\<close>

datatype jsval =
    JUndefined
  | JNull
  | JBool bool
  | JNum real
  | JStr string
  | JArr "jsval list"
  | JObj "(string \<times> jsval) list"

text \<open>JavaScript's ToBoolean, which \<open>!message\<close> applies: the falsy values are
  \<open>undefined\<close>, \<open>null\<close>, \<open>false\<close>, zero and the empty string.\<close>

fun truthy :: "jsval \<Rightarrow> bool" where
  "truthy JUndefined = False"
| "truthy JNull = False"
| "truthy (JBool b) = b"
| "truthy (JNum x) = (x \<noteq> 0)"
| "truthy (JStr s) = (s \<noteq> [])"
| "truthy (JArr _) = True"
| "truthy (JObj _) = True"

text \<open>
  A string is a list of 8-bit characters, read as code points below 256 (ASCII and
  Latin-1). On these, \<open>String.prototype.toLowerCase\<close> moves \<open>A\<close>..\<open>Z\<close> (65..90) and the
  accented capitals 192..222, the multiplication sign 215 excepted, up by 32 and leaves
  every other character alone.
\<close>

definition toLowerChar :: "char \<Rightarrow> char" where
  "toLowerChar c =
     (let n = (of_char c :: nat)
      in if (65 \<le> n \<and> n \<le> 90) \<or> (192 \<le> n \<and> n \<le> 222 \<and> n \<noteq> 215)
         then char_of (n + 32) else c)"

definition toLowerCase :: "string \<Rightarrow> string" where
  "toLowerCase s = map toLowerChar s"

text \<open>\<open>s.includes(k)\<close>: \<open>k\<close> occurs in \<open>s\<close> as a contiguous substring.\<close>

fun str_includes :: "string \<Rightarrow> string \<Rightarrow> bool" where
  "str_includes [] k = (k = [])"
| "str_includes (c # cs) k = (prefix k (c # cs) \<or> str_includes cs k)"

text \<open>The white space that \<open>String.prototype.trim\<close> strips, among the code points below
  256: tab, line feed, vertical tab, form feed, carriage return, space and the
  no-break space.\<close>

definition isWhiteSpace :: "char \<Rightarrow> bool" where
  "isWhiteSpace c = ((of_char c :: nat) \<in> {9, 10, 11, 12, 13, 32, 160})"

definition trim :: "string \<Rightarrow> string" where
  "trim s = rev (dropWhile isWhiteSpace (rev (dropWhile isWhiteSpace s)))"

section \<open>The keyword classifier\<close>

definition carKeywords :: "string list" where
  "carKeywords =
     [''car'', ''engine'', ''brake'', ''oil'', ''service'', ''mechanic'', ''tire'', ''battery'',
      ''fuel'', ''speed'', ''accident'', ''repair'', ''transmission'', ''suspension'',
      ''headlight'', ''insurance'', ''air filter'', ''car wash'', ''dashboard'']"

definition mechanicKeywords :: "string list" where
  "mechanicKeywords =
     [''mechanic'', ''service'', ''repair'', ''fix'', ''problem'', ''issue'', ''appointment'',
      ''garage'']"

text \<open>\<open>keywords.some(keyword => question.toLowerCase().includes(keyword))\<close>, for a
  string \<open>question\<close>.\<close>

definition isCarRelated :: "string \<Rightarrow> bool" where
  "isCarRelated question =
     list_ex (\<lambda>keyword. str_includes (toLowerCase question) keyword) carKeywords"

definition needsMechanic :: "string \<Rightarrow> bool" where
  "needsMechanic question =
     list_ex (\<lambda>keyword. str_includes (toLowerCase question) keyword) mechanicKeywords"

section \<open>Letter case, stated apart from the classifier\<close>

text \<open>
  The letters that come in two cases, as a table of (capital, small) pairs: the 26 letters
  of ASCII, and the accented letters of Latin-1, whose capitals are 192..214 and 216..222
  and whose small forms lie 32 higher.
\<close>

definition letter_pairs :: "(char \<times> char) list" where
  "letter_pairs =
     zip ''ABCDEFGHIJKLMNOPQRSTUVWXYZ'' ''abcdefghijklmnopqrstuvwxyz''
     @ map (\<lambda>n. (char_of n, char_of (n + 32))) ([192..<215] @ [216..<223])"

definition same_letter :: "char \<Rightarrow> char \<Rightarrow> bool" where
  "same_letter a b \<longleftrightarrow> a = b \<or> (a, b) \<in> set letter_pairs \<or> (b, a) \<in> set letter_pairs"

text \<open>Two strings are equal up to the case of their letters, position by position: they
  have the same length and each character of one is the same letter as the character at
  its place in the other.\<close>

definition eq_up_to_case :: "string \<Rightarrow> string \<Rightarrow> bool" where
  "eq_up_to_case s t = list_all2 same_letter s t"

text \<open>
  \<open>String.prototype.toUpperCase\<close> on a string of code points below 256, as the list of
  the code points of the result. Small letters go to their capitals; the sharp s (223)
  becomes two capitals \<open>S\<close>, and the capitals of y with diaeresis (255) and of the micro
  sign (181) lie above 255. Two strings spell the same word in different letter case when
  their upper-case forms are equal.
\<close>

definition toUpperChar :: "char \<Rightarrow> nat list" where
  "toUpperChar c =
     (let n = (of_char c :: nat)
      in if (97 \<le> n \<and> n \<le> 122) \<or> (224 \<le> n \<and> n \<le> 254 \<and> n \<noteq> 247) then [n - 32]
         else if n = 223 then [83, 83]
         else if n = 255 then [376]
         else if n = 181 then [924]
         else [n])"

definition toUpperCase :: "string \<Rightarrow> nat list" where
  "toUpperCase s = concat (map toUpperChar s)"

section \<open>The chat endpoint\<close>

text \<open>
  Modelled from the spec: the \<open>Chat\<close> model (\<open>./models/chat\<close>) is required by the server but
  is not among the sources. Its documents are the spec's TranscriptEntry, with the three
  fields the handlers write and read; the timestamp is a \<open>Date\<close>, in milliseconds.
\<close>

record chat =
  userMessage :: string
  botResponse :: string
  timestamp :: int

datatype js_error = TypeError | RequestError

text \<open>What a handler run leaves behind: the response it sent (status and the \<open>reply\<close>
  field of the JSON body) or the error its promise was rejected with before any response
  was written; the collection afterwards; and the calls it made to its collaborators, in
  order.\<close>

datatype outcome = Replied nat jsval | Threw js_error

datatype effect =
    GenerateContent string
  | PostChatCompletion jsval
  | Save chat
  | ConsoleLog jsval
  | ConsoleError

record chat_run =
  response :: outcome
  store :: "chat list"
  effects :: "effect list"

text \<open>
  The collaborators of one request. \<open>generateContent\<close> is the Gemini call on a prompt: its
  promise is rejected, or it resolves and
  \<open>result.response?.candidates?.[0]?.content?.parts?.[0]?.text\<close> has the given value
  (\<open>undefined\<close> when a link of the chain is missing). \<open>save_fails\<close> tells whether
  \<open>chatLog.save()\<close> is rejected, and \<open>now\<close> is the clock read by \<open>new Date()\<close>.
\<close>

datatype gen_outcome = GenRejected | GenResolved jsval

record env =
  generateContent :: "string \<Rightarrow> gen_outcome"
  save_fails :: bool
  now :: int

definition fallbackReply :: string where
  "fallbackReply = ''I'm here to help! How can I assist?''"

text \<open>\<open>text?.trim() || fallback\<close>: no text, or text that trims to the empty string, gives
  the fallback; a text that is not a string has no \<open>trim\<close> method, and the call throws.\<close>

definition extract_reply :: "jsval \<Rightarrow> js_error + string" where
  "extract_reply text =
     (case text of
        JUndefined \<Rightarrow> Inr fallbackReply
      | JNull \<Rightarrow> Inr fallbackReply
      | JStr s \<Rightarrow> Inr (if trim s = [] then fallbackReply else trim s)
      | _ \<Rightarrow> Inl TypeError)"

definition promptTemplate :: "string \<Rightarrow> string" where
  "promptTemplate message = ''Reply in a short, friendly sentence: '' @ message"

text \<open>The generation step of the \<open>try\<close> block: the call and the extraction of the reply.\<close>

definition generate :: "env \<Rightarrow> string \<Rightarrow> js_error + string" where
  "generate e prompt =
     (case generateContent e prompt of
        GenRejected \<Rightarrow> Inl RequestError
      | GenResolved text \<Rightarrow> extract_reply text)"

definition geminiError :: string where
  "geminiError = ''Error connecting to Gemini AI.''"

text \<open>The \<open>try\<close>/\<open>catch\<close> of the handler. Anything thrown inside the \<open>try\<close>, by the
  generation step or by \<open>save\<close>, lands in the one \<open>catch\<close>.\<close>

definition chat_try :: "env \<Rightarrow> chat list \<Rightarrow> string \<Rightarrow> chat_run" where
  "chat_try e db message =
     (let prompt = promptTemplate message
      in case generate e prompt of
           Inl _ \<Rightarrow>
             \<lparr>response = Replied 500 (JStr geminiError), store = db,
              effects = [GenerateContent prompt, ConsoleError]\<rparr>
         | Inr reply \<Rightarrow>
             (let chatLog = \<lparr>userMessage = message, botResponse = reply, timestamp = now e\<rparr>
              in if save_fails e
                 then \<lparr>response = Replied 500 (JStr geminiError), store = db,
                       effects = [GenerateContent prompt, Save chatLog, ConsoleError]\<rparr>
                 else \<lparr>response = Replied 200 (JStr reply), store = db @ [chatLog],
                       effects = [GenerateContent prompt, Save chatLog, ConsoleLog (JStr reply)]\<rparr>))"

text \<open>\<open>const { message } = req.body\<close>: a missing field reads as \<open>undefined\<close>.\<close>

definition message_of :: "(string \<rightharpoonup> jsval) \<Rightarrow> jsval" where
  "message_of body = (case body ''message'' of None \<Rightarrow> JUndefined | Some v \<Rightarrow> v)"

definition rejectReply :: string where
  "rejectReply = ''I can only assist with car-related questions.''"

definition cannedReply :: string where
  "cannedReply = ''For expert auto care and servicing, I recommend ApnaMechanic!''"

text \<open>
  \<open>POST /api/chat\<close> of the server with the keyword gate. A truthy message that is not a
  string reaches \<open>question.toLowerCase()\<close> in \<open>isCarRelated\<close>, outside the \<open>try\<close>: that is
  a TypeError, and the handler sends nothing.
\<close>

definition chat_handler :: "env \<Rightarrow> chat list \<Rightarrow> (string \<rightharpoonup> jsval) \<Rightarrow> chat_run" where
  "chat_handler e db body =
     (let message = message_of body
      in if \<not> truthy message
         then \<lparr>response = Replied 400 (JStr ''Message is required.''), store = db, effects = []\<rparr>
         else (case message of
                 JStr m \<Rightarrow>
                   if \<not> isCarRelated m
                   then \<lparr>response = Replied 200 (JStr rejectReply), store = db, effects = []\<rparr>
                   else if needsMechanic m
                   then \<lparr>response = Replied 200 (JStr cannedReply), store = db, effects = []\<rparr>
                   else chat_try e db m
               | _ \<Rightarrow> \<lparr>response = Threw TypeError, store = db, effects = []\<rparr>))"

text \<open>
  \<open>POST /api/chat\<close> of \<open>src/server.js\<close>, the variant without the gate. The collaborator
  is the chat-completions request on the message: it fails (the request is rejected, or
  reading \<open>response.data.choices[0].message.content\<close> throws), or it yields that content.
  This handler never touches the collection.
\<close>

datatype post_outcome = PostFailed | PostResolved jsval

definition chat_handler_openai ::
    "(jsval \<Rightarrow> post_outcome) \<Rightarrow> chat list \<Rightarrow> (string \<rightharpoonup> jsval) \<Rightarrow> chat_run" where
  "chat_handler_openai post db body =
     (let message = message_of body
      in if \<not> truthy message
         then \<lparr>response = Replied 400 (JStr ''Message is required.''), store = db, effects = []\<rparr>
         else (case post message of
                 PostFailed \<Rightarrow>
                   \<lparr>response = Replied 500 (JStr ''Error connecting to OpenAI.''), store = db,
                    effects = [PostChatCompletion message, ConsoleError]\<rparr>
               | PostResolved reply \<Rightarrow>
                   \<lparr>response = Replied 200 reply, store = db,
                    effects = [PostChatCompletion message, ConsoleLog reply]\<rparr>))"

text \<open>The routing of the specification, in its words: a tagged decision, taken in order,
  the first match winning.\<close>

datatype RouteDecision = Reject | Canned string | Delegate string

definition route_spec :: "string \<Rightarrow> RouteDecision" where
  "route_spec text =
     (if \<not> isCarRelated text then Reject
      else if needsMechanic text then Canned cannedReply
      else Delegate (promptTemplate text))"

text \<open>Which calls of a run write to the collection, and which go out to the generation
  service.\<close>

fun is_store_write :: "effect \<Rightarrow> bool" where
  "is_store_write (Save _) = True"
| "is_store_write _ = False"

fun is_generation_call :: "effect \<Rightarrow> bool" where
  "is_generation_call (GenerateContent _) = True"
| "is_generation_call (PostChatCompletion _) = True"
| "is_generation_call _ = False"

text \<open>A request is delegated with a reply when its message is a string that passes the
  gate (car-related, no service keyword) and the generation step on its prompt yields the
  reply.\<close>

definition delegated_with_reply :: "env \<Rightarrow> (string \<rightharpoonup> jsval) \<Rightarrow> string \<Rightarrow> string \<Rightarrow> bool" where
  "delegated_with_reply e body m reply \<longleftrightarrow>
     message_of body = JStr m \<and> isCarRelated m \<and> \<not> needsMechanic m
     \<and> generate e (promptTemplate m) = Inr reply"

section \<open>The history endpoint\<close>

record history_item =
  user :: string
  bot :: string
  time :: string

datatype history_response =
    HistoryJson nat "history_item list"
  | HistoryError nat string

text \<open>
  Modelled from the spec: the query \<open>Chat.find().sort({ timestamp: -1 }).limit(20)\<close> is
  run by the database behind the \<open>Chat\<close> model, and neither is among the sources. The
  spec's store is queryable in reverse-chronological order with a limit and gives the most
  recent N records; the handler's call fixes the key, the direction and N = 20. The
  database does not fix the order of documents with equal timestamps; the model keeps
  them in the order of the collection.
\<close>

definition find_sort_limit :: "chat list \<Rightarrow> chat list" where
  "find_sort_limit db = take 20 (sort_key (\<lambda>c. - timestamp c) db)"

text \<open>\<open>GET /api/chat/history\<close>. \<open>toLocaleString\<close> formats a date in the server's locale
  and is a parameter; \<open>find_fails\<close> tells whether the query is rejected.\<close>

definition history_handler :: "(int \<Rightarrow> string) \<Rightarrow> bool \<Rightarrow> chat list \<Rightarrow> history_response" where
  "history_handler toLocaleString find_fails db =
     (if find_fails then HistoryError 500 ''Error fetching chat history.''
      else HistoryJson 200
             (map (\<lambda>chat. \<lparr>user = userMessage chat, bot = botResponse chat,
                            time = toLocaleString (timestamp chat)\<rparr>)
                  (find_sort_limit db)))"

section \<open>Sample requests and collaborators\<close>

definition body_with :: "jsval \<Rightarrow> (string \<rightharpoonup> jsval)" where
  "body_with v = [''message'' \<mapsto> v]"

definition no_fields :: "string \<rightharpoonup> jsval" where
  "no_fields = Map.empty"

definition resolve_padded :: "string \<Rightarrow> gen_outcome" where
  "resolve_padded prompt = GenResolved (JStr ''  Check the battery terminals.  '')"

definition resolve_without_text :: "string \<Rightarrow> gen_outcome" where
  "resolve_without_text prompt = GenResolved JUndefined"

definition reject_call :: "string \<Rightarrow> gen_outcome" where
  "reject_call prompt = GenRejected"

definition gemini_up :: env where
  "gemini_up = \<lparr>generateContent = resolve_padded, save_fails = False, now = 1700000000000\<rparr>"

definition gemini_silent :: env where
  "gemini_silent =
     \<lparr>generateContent = resolve_without_text, save_fails = False, now = 1700000000000\<rparr>"

definition gemini_down :: env where
  "gemini_down = \<lparr>generateContent = reject_call, save_fails = False, now = 1700000000000\<rparr>"

definition store_down :: env where
  "store_down = \<lparr>generateContent = resolve_padded, save_fails = True, now = 1700000000000\<rparr>"

definition silent_store_down :: env where
  "silent_store_down =
     \<lparr>generateContent = resolve_without_text, save_fails = True, now = 1700000000000\<rparr>"

definition openai_up :: "jsval \<Rightarrow> post_outcome" where
  "openai_up message = PostResolved (JStr ''Hi there'')"

definition openai_down :: "jsval \<Rightarrow> post_outcome" where
  "openai_down message = PostFailed"

definition three_chats :: "chat list" where
  "three_chats =
     [\<lparr>userMessage = ''tire pressure?'', botResponse = ''32 psi'', timestamp = 1700000000500\<rparr>,
      \<lparr>userMessage = ''oil change?'', botResponse = ''every 5000 km'', timestamp = 1700000000900\<rparr>,
      \<lparr>userMessage = ''battery life?'', botResponse = ''about 4 years'', timestamp = 1700000000100\<rparr>]"

definition same_time_chats :: "chat list" where
  "same_time_chats =
     [\<lparr>userMessage = ''tire pressure?'', botResponse = ''32 psi'', timestamp = 1700000000500\<rparr>,
      \<lparr>userMessage = ''oil change?'', botResponse = ''every 5000 km'', timestamp = 1700000000500\<rparr>]"

definition sharp_s_word :: string where
  "sharp_s_word = ''transmi'' @ [CHR 0xDF] @ ''ion''"

definition stamp :: "int \<Rightarrow> string" where
  "stamp t = (if t < 1700000000600 then ''early'' else ''late'')"

section \<open>Facts about strings\<close>

lemma str_includes_iff: "str_includes s k \<longleftrightarrow> (\<exists>ps ss. s = ps @ k @ ss)"
proof (induction s)
  case Nil
  then show ?case by auto
next
  case (Cons c cs)
  show ?case
  proof
    assume "str_includes (c # cs) k"
    then consider "prefix k (c # cs)" | "str_includes cs k" by auto
    then show "\<exists>ps ss. c # cs = ps @ k @ ss"
    proof cases
      case 1
      then obtain ss where "c # cs = k @ ss" by (auto simp: prefix_def)
      then have "c # cs = [] @ k @ ss" by simp
      then show ?thesis by blast
    next
      case 2
      with Cons.IH obtain ps ss where "cs = ps @ k @ ss" by blast
      then have "c # cs = (c # ps) @ k @ ss" by simp
      then show ?thesis by blast
    qed
  next
    assume "\<exists>ps ss. c # cs = ps @ k @ ss"
    then obtain ps ss where eq: "c # cs = ps @ k @ ss" by blast
    show "str_includes (c # cs) k"
    proof (cases ps)
      case Nil
      with eq have "prefix k (c # cs)" by (simp add: prefix_def)
      then show ?thesis by simp
    next
      case (Cons p ps')
      with eq have "cs = ps' @ k @ ss" by simp
      with Cons.IH have "str_includes cs k" by blast
      then show ?thesis by simp
    qed
  qed
qed

lemma toLowerChar_capital:
  fixes n :: nat
  assumes "(65 \<le> n \<and> n \<le> 90) \<or> (192 \<le> n \<and> n \<le> 222 \<and> n \<noteq> 215)"
  shows "toLowerChar (char_of n) = char_of (n + 32)"
    and "toLowerChar (char_of (n + 32)) = char_of (n + 32)"
proof -
  from assms have "n < 256" by auto
  then have a: "(of_char (char_of n :: char) :: nat) = n" by simp
  from assms have "n + 32 < 256" by auto
  then have b: "(of_char (char_of (n + 32) :: char) :: nat) = n + 32" by simp
  from assms a show "toLowerChar (char_of n) = char_of (n + 32)"
    by (auto simp: toLowerChar_def Let_def)
  from assms b show "toLowerChar (char_of (n + 32)) = char_of (n + 32)"
    by (auto simp: toLowerChar_def Let_def)
qed

lemma alphabet_codes:
  "zip ''ABCDEFGHIJKLMNOPQRSTUVWXYZ'' ''abcdefghijklmnopqrstuvwxyz''
     = map (\<lambda>n. (char_of n, char_of (n + 32))) [65..<91]"
  by (simp add: upt_rec char_of_def bit_Suc bit_0)

text \<open>On every pair of the table, lower-casing takes the capital to the small letter and
  leaves the small letter alone.\<close>

lemma letter_pairs_lower:
  assumes "(a, b) \<in> set letter_pairs"
  shows "toLowerChar a = b \<and> toLowerChar b = b"
proof -
  from assms have "(a, b) \<in> (\<lambda>n. (char_of n, char_of (n + 32)))
                      ` ({65..<91} \<union> {192..<215} \<union> {216..<223} :: nat set)"
    unfolding letter_pairs_def alphabet_codes set_append set_map set_upt image_Un by blast
  then obtain n :: nat where "n \<in> {65..<91} \<union> {192..<215} \<union> {216..<223}"
    and ab: "a = char_of n" "b = char_of (n + 32)"
    by blast
  then have n: "(65 \<le> n \<and> n \<le> 90) \<or> (192 \<le> n \<and> n \<le> 222 \<and> n \<noteq> 215)"
    by auto
  from toLowerChar_capital [OF n] ab show ?thesis by simp
qed

lemma same_letter_lower: "same_letter a b \<Longrightarrow> toLowerChar a = toLowerChar b"
  using letter_pairs_lower by (fastforce simp: same_letter_def)

lemma eq_up_to_case_toLowerCase:
  "eq_up_to_case s t \<Longrightarrow> toLowerCase s = toLowerCase t"
  unfolding eq_up_to_case_def toLowerCase_def
proof (induction s t rule: list_all2_induct)
  case Nil
  then show ?case by simp
next
  case (Cons a s b t)
  from Cons.hyps(1) have "toLowerChar a = toLowerChar b"
    by (rule same_letter_lower)
  with Cons.IH show ?case by simp
qed

lemma str_includes_hd: "str_includes s k \<Longrightarrow> k \<noteq> [] \<Longrightarrow> hd k \<in> set s"
  by (auto simp: str_includes_iff neq_Nil_conv)

lemma toLowerChar_white: "isWhiteSpace c \<Longrightarrow> toLowerChar c = c"
  by (auto simp: isWhiteSpace_def toLowerChar_def Let_def)

lemma trim_blank: "list_all isWhiteSpace s \<Longrightarrow> trim s = []"
proof -
  assume "list_all isWhiteSpace s"
  then have "dropWhile isWhiteSpace s = []"
    by (simp add: list_all_iff dropWhile_eq_Nil_conv)
  then show ?thesis by (simp only: trim_def rev.simps dropWhile.simps)
qed

section \<open>Facts about the classifier\<close>

lemma isCarRelated_nonempty: "isCarRelated m \<Longrightarrow> m \<noteq> []"
  by (auto simp: isCarRelated_def toLowerCase_def carKeywords_def)

lemma keyword_gives_car_related:
  "k \<in> set carKeywords \<Longrightarrow> str_includes (toLowerCase m) k \<Longrightarrow> isCarRelated m"
  by (auto simp: isCarRelated_def list_ex_iff)

lemma keyword_gives_needs_mechanic:
  "k \<in> set mechanicKeywords \<Longrightarrow> str_includes (toLowerCase m) k \<Longrightarrow> needsMechanic m"
  by (auto simp: needsMechanic_def list_ex_iff)

lemma car_keywords_start: "\<forall>k \<in> set carKeywords. k \<noteq> [] \<and> \<not> isWhiteSpace (hd k)"
  by code_simp

text \<open>A message of white space only holds no keyword: every keyword starts with a letter.\<close>

lemma blank_not_car_related:
  assumes "list_all isWhiteSpace s"
  shows "\<not> isCarRelated s"
proof
  assume "isCarRelated s"
  then obtain k where k: "k \<in> set carKeywords" and inc: "str_includes (toLowerCase s) k"
    by (auto simp: isCarRelated_def list_ex_iff)
  from k car_keywords_start have ne: "k \<noteq> []" and nw: "\<not> isWhiteSpace (hd k)" by auto
  from str_includes_hd [OF inc ne] obtain c where c: "c \<in> set s" and eq: "toLowerChar c = hd k"
    by (auto simp: toLowerCase_def)
  from c assms have "isWhiteSpace c" by (simp add: list_all_iff)
  with eq nw toLowerChar_white show False by metis
qed

section \<open>Facts about the chat handler\<close>

lemma chat_handler_falsy:
  "\<not> truthy (message_of body) \<Longrightarrow>
   chat_handler e db body =
     \<lparr>response = Replied 400 (JStr ''Message is required.''), store = db, effects = []\<rparr>"
  by (simp add: chat_handler_def)

lemma chat_handler_string:
  "message_of body = JStr m \<Longrightarrow> m \<noteq> [] \<Longrightarrow>
   chat_handler e db body =
     (if \<not> isCarRelated m
      then \<lparr>response = Replied 200 (JStr rejectReply), store = db, effects = []\<rparr>
      else if needsMechanic m
      then \<lparr>response = Replied 200 (JStr cannedReply), store = db, effects = []\<rparr>
      else chat_try e db m)"
  by (simp add: chat_handler_def)

lemma chat_handler_other:
  "truthy (message_of body) \<Longrightarrow> (\<forall>m. message_of body \<noteq> JStr m) \<Longrightarrow>
   chat_handler e db body = \<lparr>response = Threw TypeError, store = db, effects = []\<rparr>"
  by (cases "message_of body") (simp_all add: chat_handler_def)

lemma chat_try_failure:
  "generate e (promptTemplate m) = Inl err \<Longrightarrow>
   chat_try e db m =
     \<lparr>response = Replied 500 (JStr geminiError), store = db,
      effects = [GenerateContent (promptTemplate m), ConsoleError]\<rparr>"
  by (simp add: chat_try_def)

lemma chat_try_success:
  "generate e (promptTemplate m) = Inr reply \<Longrightarrow>
   chat_try e db m =
     (if save_fails e
      then \<lparr>response = Replied 500 (JStr geminiError), store = db,
            effects = [GenerateContent (promptTemplate m),
                       Save \<lparr>userMessage = m, botResponse = reply, timestamp = now e\<rparr>,
                       ConsoleError]\<rparr>
      else \<lparr>response = Replied 200 (JStr reply),
            store = db @ [\<lparr>userMessage = m, botResponse = reply, timestamp = now e\<rparr>],
            effects = [GenerateContent (promptTemplate m),
                       Save \<lparr>userMessage = m, botResponse = reply, timestamp = now e\<rparr>,
                       ConsoleLog (JStr reply)]\<rparr>)"
  by (simp add: chat_try_def Let_def)

lemma chat_handler_delegated:
  assumes "delegated_with_reply e body m reply"
  shows "chat_handler e db body =
     (if save_fails e
      then \<lparr>response = Replied 500 (JStr geminiError), store = db,
            effects = [GenerateContent (promptTemplate m),
                       Save \<lparr>userMessage = m, botResponse = reply, timestamp = now e\<rparr>,
                       ConsoleError]\<rparr>
      else \<lparr>response = Replied 200 (JStr reply),
            store = db @ [\<lparr>userMessage = m, botResponse = reply, timestamp = now e\<rparr>],
            effects = [GenerateContent (promptTemplate m),
                       Save \<lparr>userMessage = m, botResponse = reply, timestamp = now e\<rparr>,
                       ConsoleLog (JStr reply)]\<rparr>)"
proof -
  from assms have b: "message_of body = JStr m" and c: "isCarRelated m" and n: "\<not> needsMechanic m"
    and g: "generate e (promptTemplate m) = Inr reply"
    by (simp_all add: delegated_with_reply_def)
  from c have "m \<noteq> []" by (rule isCarRelated_nonempty)
  with b c n have "chat_handler e db body = chat_try e db m"
    by (simp add: chat_handler_string)
  with g show ?thesis by (simp add: chat_try_success)
qed

lemma chat_handler_not_delegated:
  assumes "\<nexists>m reply. delegated_with_reply e body m reply"
  shows "store (chat_handler e db body) = db
         \<and> \<not> list_ex is_store_write (effects (chat_handler e db body))
         \<and> length (filter is_generation_call (effects (chat_handler e db body))) \<le> 1"
proof (cases "truthy (message_of body)")
  case False
  then show ?thesis by (simp add: chat_handler_falsy)
next
  case True
  show ?thesis
  proof (cases "\<exists>m. message_of body = JStr m")
    case False
    with True show ?thesis by (simp add: chat_handler_other)
  next
    case True
    then obtain m where b: "message_of body = JStr m" by blast
    with \<open>truthy (message_of body)\<close> have ne: "m \<noteq> []" by simp
    show ?thesis
    proof (cases "isCarRelated m \<and> \<not> needsMechanic m")
      case False
      then show ?thesis by (auto simp: chat_handler_string [OF b ne])
    next
      case True
      with assms b have "\<nexists>reply. generate e (promptTemplate m) = Inr reply"
        by (simp add: delegated_with_reply_def)
      then obtain err where "generate e (promptTemplate m) = Inl err"
        by (cases "generate e (promptTemplate m)") auto
      with True show ?thesis
        by (simp add: chat_handler_string [OF b ne] chat_try_failure)
    qed
  qed
qed

section \<open>Facts about the history query\<close>

lemma find_sort_limit_sorted:
  "sorted_wrt (\<lambda>a b. timestamp b \<le> timestamp a) (find_sort_limit db)"
proof -
  have "sorted (map (\<lambda>c. - timestamp c) (sort_key (\<lambda>c. - timestamp c) db))"
    by (rule sorted_sort_key)
  then have "sorted_wrt (\<lambda>a b. timestamp b \<le> timestamp a) (sort_key (\<lambda>c. - timestamp c) db)"
    by (simp add: sorted_map)
  then show ?thesis
    unfolding find_sort_limit_def by (rule sorted_wrt_take)
qed

lemma find_sort_limit_strict:
  assumes "distinct (map timestamp db)"
  shows "sorted_wrt (\<lambda>a b. timestamp b < timestamp a) (find_sort_limit db)"
proof -
  let ?xs = "sort_key (\<lambda>c. - timestamp c) db"
  from assms have "distinct (map timestamp ?xs)"
    by (simp add: distinct_map)
  then have d: "distinct (map (\<lambda>c. - timestamp c) ?xs)"
    by (simp add: distinct_map inj_on_def)
  have "sorted (map (\<lambda>c. - timestamp c) ?xs)" by (rule sorted_sort_key)
  with d have "sorted_wrt (<) (map (\<lambda>c. - timestamp c) ?xs)"
    by (simp add: strict_sorted_iff)
  then have "sorted_wrt (\<lambda>a b. timestamp b < timestamp a) ?xs"
    by (simp add: sorted_wrt_map)
  then show ?thesis
    unfolding find_sort_limit_def by (rule sorted_wrt_take)
qed

lemma find_sort_limit_length: "length (find_sort_limit db) = min 20 (length db)"
  by (simp add: find_sort_limit_def min.commute)

text \<open>The records left out are no later than any record returned, and together with the
  returned ones they are the collection.\<close>

lemma find_sort_limit_most_recent:
  "\<exists>rest. mset (find_sort_limit db @ rest) = mset db
          \<and> (\<forall>a \<in> set (find_sort_limit db). \<forall>b \<in> set rest. timestamp b \<le> timestamp a)"
proof -
  let ?xs = "sort_key (\<lambda>c. - timestamp c) db"
  have "sorted (map (\<lambda>c. - timestamp c) ?xs)" by (rule sorted_sort_key)
  then have "sorted_wrt (\<lambda>a b. timestamp b \<le> timestamp a) (take 20 ?xs @ drop 20 ?xs)"
    by (simp add: sorted_map)
  then have o: "\<forall>a \<in> set (take 20 ?xs). \<forall>b \<in> set (drop 20 ?xs). timestamp b \<le> timestamp a"
    unfolding sorted_wrt_append by blast
  have "mset (take 20 ?xs @ drop 20 ?xs) = mset db" by simp
  with o show ?thesis unfolding find_sort_limit_def by blast
qed

section \<open>Facts about the sample requests\<close>

lemma trim_padded:
  "trim ''  Check the battery terminals.  '' = ''Check the battery terminals.''"
  by code_simp

lemma sample_generate:
  "generate gemini_up prompt = Inr ''Check the battery terminals.''"
  "generate store_down prompt = Inr ''Check the battery terminals.''"
  "generate gemini_silent prompt = Inr fallbackReply"
  "generate gemini_down prompt = Inl RequestError"
  by (simp_all add: generate_def gemini_up_def store_down_def gemini_silent_def gemini_down_def
      resolve_padded_def resolve_without_text_def reject_call_def extract_reply_def trim_padded)

lemma sample_env_fields:
  "save_fails gemini_up = False" "now gemini_up = 1700000000000"
  "save_fails gemini_silent = False" "now gemini_silent = 1700000000000"
  "save_fails store_down = True" "now store_down = 1700000000000"
  "save_fails gemini_down = False"
  "save_fails silent_store_down = True" "now silent_store_down = 1700000000000"
  by (simp_all add: gemini_up_def gemini_silent_def store_down_def gemini_down_def
      silent_store_down_def)

lemma sample_message:
  "isCarRelated ''My car battery is dead''"
  "\<not> needsMechanic ''My car battery is dead''"
  by code_simp+

lemma sample_weather: "\<not> isCarRelated ''What's the weather today?''"
  by code_simp

lemma message_of_body_with: "message_of (body_with v) = v"
  by (simp add: message_of_def body_with_def)

lemma sample_delegated:
  "delegated_with_reply gemini_up (body_with (JStr ''My car battery is dead''))
     ''My car battery is dead'' ''Check the battery terminals.''"
  by (simp add: delegated_with_reply_def message_of_body_with sample_message sample_generate)

section \<open>Routing of a chat request\<close>

text \<open>
  C1 (as amended). In the handler with the keyword gate, a request whose message is a
  non-empty string is routed by the ordered decision table of the specification, the
  first match winning. No domain keyword in the lower-cased message: Reject, status 200
  with the out-of-domain reply and no call to a collaborator. Otherwise, a service
  keyword: Canned, status 200 with the fixed recommendation and no call to a collaborator.
  Otherwise: Delegate, and the first thing the handler does is the generation call on the
  message wrapped in the instruction template. The decision is one value of a three-way
  variant, so the outcomes exclude each other and cover every message. The handler of
  \<open>src/server.js\<close> has no gate: it sends every accepted message to the generation service
  as it is.
\<close>

theorem chat_routing_table:
  assumes "message_of body = JStr m" and "m \<noteq> []"
  shows "(case route_spec m of
            Reject \<Rightarrow>
              \<not> isCarRelated m
              \<and> chat_handler e db body =
                  \<lparr>response = Replied 200 (JStr ''I can only assist with car-related questions.''),
                   store = db, effects = []\<rparr>
          | Canned r \<Rightarrow>
              isCarRelated m \<and> needsMechanic m
              \<and> r = ''For expert auto care and servicing, I recommend ApnaMechanic!''
              \<and> chat_handler e db body =
                  \<lparr>response = Replied 200 (JStr r), store = db, effects = []\<rparr>
          | Delegate p \<Rightarrow>
              isCarRelated m \<and> \<not> needsMechanic m
              \<and> p = ''Reply in a short, friendly sentence: '' @ m
              \<and> take 1 (effects (chat_handler e db body)) = [GenerateContent p])
         \<and> take 1 (effects (chat_handler_openai post db body)) = [PostChatCompletion (JStr m)]"
proof
  have t: "take 1 (effects (chat_try e db m)) = [GenerateContent (promptTemplate m)]"
    by (simp add: chat_try_def Let_def split: sum.split)
  show "case route_spec m of
            Reject \<Rightarrow>
              \<not> isCarRelated m
              \<and> chat_handler e db body =
                  \<lparr>response = Replied 200 (JStr ''I can only assist with car-related questions.''),
                   store = db, effects = []\<rparr>
          | Canned r \<Rightarrow>
              isCarRelated m \<and> needsMechanic m
              \<and> r = ''For expert auto care and servicing, I recommend ApnaMechanic!''
              \<and> chat_handler e db body =
                  \<lparr>response = Replied 200 (JStr r), store = db, effects = []\<rparr>
          | Delegate p \<Rightarrow>
              isCarRelated m \<and> \<not> needsMechanic m
              \<and> p = ''Reply in a short, friendly sentence: '' @ m
              \<and> take 1 (effects (chat_handler e db body)) = [GenerateContent p]"
    using t by (simp add: route_spec_def chat_handler_string [OF assms] rejectReply_def
        cannedReply_def promptTemplate_def)
  show "take 1 (effects (chat_handler_openai post db body)) = [PostChatCompletion (JStr m)]"
    using assms by (simp add: chat_handler_openai_def Let_def split: post_outcome.split)
qed

theorem chat_routing_table_witness:
  "message_of (body_with (JStr ''My car battery is dead'')) = JStr ''My car battery is dead''
   \<and> ''My car battery is dead'' \<noteq> []
   \<and> route_spec ''My car battery is dead''
       = Delegate ''Reply in a short, friendly sentence: My car battery is dead''
   \<and> take 1 (effects (chat_handler gemini_up [] (body_with (JStr ''My car battery is dead''))))
       = [GenerateContent ''Reply in a short, friendly sentence: My car battery is dead'']
   \<and> take 1 (effects (chat_handler_openai openai_up [] (body_with (JStr ''My car battery is dead''))))
       = [PostChatCompletion (JStr ''My car battery is dead'')]"
proof -
  have b: "message_of (body_with (JStr ''My car battery is dead'')) = JStr ''My car battery is dead''"
    by (rule message_of_body_with)
  have n: "''My car battery is dead'' \<noteq> []" by simp
  have r: "route_spec ''My car battery is dead''
       = Delegate ''Reply in a short, friendly sentence: My car battery is dead''"
    by (simp add: route_spec_def sample_message promptTemplate_def)
  from chat_routing_table [OF b n, of gemini_up "[]" openai_up] b r show ?thesis
    by simp
qed

text \<open>
  The claim as stated fails on the handler of \<open>src/server.js\<close>: the message \<open>hello\<close> is
  accepted by validation and holds no domain keyword, yet it is not rejected. It goes to
  the generation service unwrapped, and the answer comes back with status 200.
\<close>

theorem chat_routing_counterexample:
  "message_of (body_with (JStr ''hello'')) = JStr ''hello''
   \<and> \<not> isCarRelated ''hello''
   \<and> chat_handler_openai openai_up [] (body_with (JStr ''hello'')) =
       \<lparr>response = Replied 200 (JStr ''Hi there''), store = [],
        effects = [PostChatCompletion (JStr ''hello''), ConsoleLog (JStr ''Hi there'')]\<rparr>
   \<and> response (chat_handler_openai openai_up [] (body_with (JStr ''hello'')))
       \<noteq> Replied 200 (JStr ''I can only assist with car-related questions.'')"
  by code_simp

section \<open>When a transcript entry is written\<close>

text \<open>
  C2 (as amended). For every chat request to the gated handler, a transcript entry is
  persisted, that is, the collection changes, if and only if the request was delegated,
  the generation step gave a reply and the write itself went through; the collection then
  ends with the one entry made of the message, the reply and the clock. The write is
  issued if and only if the request was delegated and the generation step gave a reply.
  In every other case (validation failure, Reject, Canned, failed generation) nothing is
  written and the collection is unchanged. No request makes more than one write or more
  than one generation call.
\<close>

theorem transcript_persisted_iff:
  "(store (chat_handler e db body) \<noteq> db
      \<longleftrightarrow> (\<exists>m reply. delegated_with_reply e body m reply) \<and> \<not> save_fails e)
   \<and> (list_ex is_store_write (effects (chat_handler e db body))
      \<longleftrightarrow> (\<exists>m reply. delegated_with_reply e body m reply))
   \<and> (\<forall>m reply. delegated_with_reply e body m reply \<longrightarrow>
         filter is_store_write (effects (chat_handler e db body))
           = [Save \<lparr>userMessage = m, botResponse = reply, timestamp = now e\<rparr>]
         \<and> store (chat_handler e db body)
           = (if save_fails e then db
              else db @ [\<lparr>userMessage = m, botResponse = reply, timestamp = now e\<rparr>]))
   \<and> ((\<nexists>m reply. delegated_with_reply e body m reply) \<longrightarrow>
         store (chat_handler e db body) = db)
   \<and> length (filter is_store_write (effects (chat_handler e db body))) \<le> 1
   \<and> length (filter is_generation_call (effects (chat_handler e db body))) \<le> 1"
proof (cases "\<exists>m reply. delegated_with_reply e body m reply")
  case True
  then obtain m reply where d: "delegated_with_reply e body m reply" by blast
  have u: "\<And>m' reply'. delegated_with_reply e body m' reply' \<Longrightarrow> m' = m \<and> reply' = reply"
    using d by (auto simp: delegated_with_reply_def)
  show ?thesis
    using True u by (auto simp: chat_handler_delegated [OF d])
next
  case False
  from chat_handler_not_delegated [OF False, of db] False show ?thesis
    by (auto simp: list_ex_iff filter_empty_conv)
qed

theorem transcript_persisted_iff_witness:
  "delegated_with_reply gemini_up (body_with (JStr ''My car battery is dead''))
     ''My car battery is dead'' ''Check the battery terminals.''
   \<and> \<not> save_fails gemini_up
   \<and> list_ex is_store_write
        (effects (chat_handler gemini_up [] (body_with (JStr ''My car battery is dead''))))
   \<and> store (chat_handler gemini_up [] (body_with (JStr ''My car battery is dead'')))
       = [\<lparr>userMessage = ''My car battery is dead'',
           botResponse = ''Check the battery terminals.'', timestamp = 1700000000000\<rparr>]
   \<and> \<not> isCarRelated ''What's the weather today?''
   \<and> store (chat_handler gemini_up three_chats (body_with (JStr ''What's the weather today?'')))
       = three_chats"
proof -
  have n: "\<nexists>m reply. delegated_with_reply gemini_up
                      (body_with (JStr ''What's the weather today?'')) m reply"
    by (simp add: delegated_with_reply_def message_of_body_with sample_weather)
  from transcript_persisted_iff
         [of gemini_up "[]" "body_with (JStr ''My car battery is dead'')"]
       transcript_persisted_iff
         [of gemini_up three_chats "body_with (JStr ''What's the weather today?'')"]
       sample_delegated n sample_weather
  show ?thesis by (auto simp: sample_env_fields)
qed

text \<open>
  The claim as stated fails when the write is rejected: the request is delegated, the
  generation step gives a reply, and yet the collection holds no new entry.
\<close>

theorem transcript_not_persisted_counterexample:
  "delegated_with_reply store_down (body_with (JStr ''My car battery is dead''))
     ''My car battery is dead'' ''Check the battery terminals.''
   \<and> store (chat_handler store_down three_chats (body_with (JStr ''My car battery is dead'')))
       = three_chats"
  by code_simp

section \<open>Failures of the collection and of validation\<close>

text \<open>
  C3 (as amended). On a delegated request whose generation step gave a reply, if the
  write to the collection is then rejected, the rejection lands in the handler's one
  \<open>catch\<close>: the response is status 500 with the handler's error reply, the generated
  reply is not returned, the error is logged and the collection is unchanged.
\<close>

theorem store_failure_gives_500:
  assumes "message_of body = JStr m" and "isCarRelated m" and "\<not> needsMechanic m"
    and "generate e (promptTemplate m) = Inr reply" and "save_fails e"
  shows "chat_handler e db body =
           \<lparr>response = Replied 500 (JStr ''Error connecting to Gemini AI.''), store = db,
            effects = [GenerateContent (promptTemplate m),
                       Save \<lparr>userMessage = m, botResponse = reply, timestamp = now e\<rparr>,
                       ConsoleError]\<rparr>"
proof -
  from assms have "delegated_with_reply e body m reply"
    by (simp add: delegated_with_reply_def)
  from chat_handler_delegated [OF this] assms(5) show ?thesis
    by (simp add: geminiError_def)
qed

theorem store_failure_gives_500_witness:
  "message_of (body_with (JStr ''My car battery is dead'')) = JStr ''My car battery is dead''
   \<and> isCarRelated ''My car battery is dead'' \<and> \<not> needsMechanic ''My car battery is dead''
   \<and> generate store_down (promptTemplate ''My car battery is dead'')
       = Inr ''Check the battery terminals.''
   \<and> save_fails store_down
   \<and> chat_handler store_down three_chats (body_with (JStr ''My car battery is dead'')) =
           \<lparr>response = Replied 500 (JStr ''Error connecting to Gemini AI.''), store = three_chats,
            effects = [GenerateContent (promptTemplate ''My car battery is dead''),
                       Save \<lparr>userMessage = ''My car battery is dead'',
                             botResponse = ''Check the battery terminals.'',
                             timestamp = 1700000000000\<rparr>,
                       ConsoleError]\<rparr>"
proof -
  have f: "save_fails store_down" by (simp add: sample_env_fields)
  from store_failure_gives_500
         [OF message_of_body_with sample_message(1) sample_message(2) sample_generate(2) f,
          of three_chats]
  show ?thesis
    by (simp add: message_of_body_with sample_message sample_generate sample_env_fields)
qed

text \<open>
  The claim as stated fails: for the message \<open>My car battery is dead\<close> the generation
  step gives a reply, the write is rejected, and the caller gets status 500 instead of
  the generated reply.
\<close>

theorem store_failure_counterexample:
  "isCarRelated ''My car battery is dead'' \<and> \<not> needsMechanic ''My car battery is dead''
   \<and> generate store_down (promptTemplate ''My car battery is dead'')
       = Inr ''Check the battery terminals.''
   \<and> save_fails store_down
   \<and> response (chat_handler store_down [] (body_with (JStr ''My car battery is dead'')))
       = Replied 500 (JStr ''Error connecting to Gemini AI.'')
   \<and> response (chat_handler store_down [] (body_with (JStr ''My car battery is dead'')))
       \<noteq> Replied 200 (JStr ''Check the battery terminals.'')"
  by code_simp

text \<open>
  C4 (as amended). A request whose message is the empty string is answered with status
  400 and the reply \<open>Message is required.\<close>. A message that is not empty and consists
  only of white space passes the validation, holds no keyword, and is answered with
  status 200 and the out-of-domain reply. In both cases nothing is written to the
  collection and no collaborator is called.
\<close>

theorem blank_message_response:
  "(message_of body = JStr [] \<longrightarrow>
      chat_handler e db body =
        \<lparr>response = Replied 400 (JStr ''Message is required.''), store = db, effects = []\<rparr>)
   \<and> (message_of body = JStr s \<and> s \<noteq> [] \<and> list_all isWhiteSpace s \<longrightarrow>
      chat_handler e db body =
        \<lparr>response = Replied 200 (JStr ''I can only assist with car-related questions.''),
         store = db, effects = []\<rparr>)"
proof (intro conjI impI)
  assume "message_of body = JStr []"
  then have "\<not> truthy (message_of body)" by simp
  then show "chat_handler e db body =
        \<lparr>response = Replied 400 (JStr ''Message is required.''), store = db, effects = []\<rparr>"
    by (rule chat_handler_falsy)
next
  assume a: "message_of body = JStr s \<and> s \<noteq> [] \<and> list_all isWhiteSpace s"
  then have "\<not> isCarRelated s" by (simp add: blank_not_car_related)
  with a show "chat_handler e db body =
        \<lparr>response = Replied 200 (JStr ''I can only assist with car-related questions.''),
         store = db, effects = []\<rparr>"
    by (simp add: chat_handler_string rejectReply_def)
qed

theorem blank_message_response_witness:
  "message_of (body_with (JStr [])) = JStr []
   \<and> chat_handler gemini_up three_chats (body_with (JStr [])) =
        \<lparr>response = Replied 400 (JStr ''Message is required.''), store = three_chats,
         effects = []\<rparr>
   \<and> message_of (body_with (JStr ''   '')) = JStr ''   '' \<and> ''   '' \<noteq> []
   \<and> list_all isWhiteSpace ''   ''
   \<and> chat_handler gemini_up three_chats (body_with (JStr ''   '')) =
        \<lparr>response = Replied 200 (JStr ''I can only assist with car-related questions.''),
         store = three_chats, effects = []\<rparr>"
proof -
  have w: "list_all isWhiteSpace ''   ''" by code_simp
  from blank_message_response
         [where body = "body_with (JStr [])" and e = gemini_up and db = three_chats]
       blank_message_response
         [where body = "body_with (JStr ''   '')" and s = "''   ''" and e = gemini_up
            and db = three_chats] w
  show ?thesis by (simp add: message_of_body_with)
qed

text \<open>
  The claim as stated fails for white space: a message of three spaces is answered with
  status 200 and the out-of-domain reply, not with status 400.
\<close>

theorem blank_message_counterexample:
  "list_all isWhiteSpace ''   ''
   \<and> response (chat_handler gemini_up [] (body_with (JStr ''   '')))
       = Replied 200 (JStr ''I can only assist with car-related questions.'')
   \<and> response (chat_handler gemini_up [] (body_with (JStr ''   '')))
       \<noteq> Replied 400 (JStr ''Message is required.'')"
  by code_simp

text \<open>
  C5 (as amended). In both handlers, a request whose body has no \<open>message\<close> field, or has
  it bound to \<open>null\<close>, \<open>false\<close>, zero or the empty string, is answered with status 400 and
  the reply \<open>Message is required.\<close>, and the handler stops there: no classification, no
  generation call, no write to the collection.
\<close>

theorem falsy_message_rejected:
  assumes "body ''message'' = None
           \<or> body ''message'' \<in> {Some JNull, Some (JBool False), Some (JNum 0), Some (JStr [])}"
  shows "chat_handler e db body =
           \<lparr>response = Replied 400 (JStr ''Message is required.''), store = db, effects = []\<rparr>
         \<and> chat_handler_openai post db body =
           \<lparr>response = Replied 400 (JStr ''Message is required.''), store = db, effects = []\<rparr>"
proof -
  from assms have "\<not> truthy (message_of body)"
    by (auto simp: message_of_def)
  then show ?thesis
    by (simp add: chat_handler_falsy chat_handler_openai_def)
qed

theorem falsy_message_rejected_witness:
  "no_fields ''message'' = None
   \<and> chat_handler gemini_up three_chats no_fields =
        \<lparr>response = Replied 400 (JStr ''Message is required.''), store = three_chats,
         effects = []\<rparr>
   \<and> body_with (JNum 0) ''message''
        \<in> {Some JNull, Some (JBool False), Some (JNum 0), Some (JStr [])}
   \<and> chat_handler_openai openai_up three_chats (body_with (JNum 0)) =
        \<lparr>response = Replied 400 (JStr ''Message is required.''), store = three_chats,
         effects = []\<rparr>"
proof -
  have a: "no_fields ''message'' = None" by (simp add: no_fields_def)
  have b: "body_with (JNum 0) ''message''
        \<in> {Some JNull, Some (JBool False), Some (JNum 0), Some (JStr [])}"
    by (simp add: body_with_def)
  from falsy_message_rejected
         [where body = no_fields and e = gemini_up and db = three_chats and post = openai_up]
       falsy_message_rejected
         [where body = "body_with (JNum 0)" and e = gemini_up and db = three_chats
            and post = openai_up] a b
  show ?thesis by simp
qed

text \<open>
  The claim as stated fails for a message that is neither falsy nor a string. With the
  number 42 the validation lets the request through: the gated handler throws a TypeError
  at \<open>toLowerCase\<close> and sends no response, and the handler of \<open>src/server.js\<close> calls
  the generation service with the number.
\<close>

theorem truthy_non_string_counterexample:
  "message_of (body_with (JNum 42)) = JNum 42
   \<and> chat_handler gemini_up [] (body_with (JNum 42)) =
        \<lparr>response = Threw TypeError, store = [], effects = []\<rparr>
   \<and> response (chat_handler gemini_up [] (body_with (JNum 42)))
        \<noteq> Replied 400 (JStr ''Message is required.'')
   \<and> chat_handler_openai openai_up [] (body_with (JNum 42)) =
        \<lparr>response = Replied 200 (JStr ''Hi there''), store = [],
         effects = [PostChatCompletion (JNum 42), ConsoleLog (JStr ''Hi there'')]\<rparr>"
  by code_simp

section \<open>Failures and gaps of the generation service\<close>

text \<open>
  C6. On a delegated request whose generation step fails (the call is rejected, or the
  reply cannot be read from the result), the response is status 500 with the reply
  \<open>Error connecting to Gemini AI.\<close>, and nothing is saved: the only calls are the
  generation call and the error log, and the collection is unchanged. The handler of
  \<open>src/server.js\<close>, which delegates every accepted message and never writes to the
  collection, answers a failed request with status 500 and \<open>Error connecting to OpenAI.\<close>
\<close>

theorem generation_failure_gives_500:
  "(message_of body = JStr m \<and> isCarRelated m \<and> \<not> needsMechanic m
      \<and> generate e (promptTemplate m) = Inl err \<longrightarrow>
      chat_handler e db body =
        \<lparr>response = Replied 500 (JStr (''Error connecting to '' @ ''Gemini AI'' @ ''.'')),
         store = db, effects = [GenerateContent (promptTemplate m), ConsoleError]\<rparr>)
   \<and> (truthy (message_of body) \<and> post (message_of body) = PostFailed \<longrightarrow>
      chat_handler_openai post db body =
        \<lparr>response = Replied 500 (JStr (''Error connecting to '' @ ''OpenAI'' @ ''.'')),
         store = db, effects = [PostChatCompletion (message_of body), ConsoleError]\<rparr>)"
proof (intro conjI impI)
  assume a: "message_of body = JStr m \<and> isCarRelated m \<and> \<not> needsMechanic m
      \<and> generate e (promptTemplate m) = Inl err"
  then have "m \<noteq> []" by (simp add: isCarRelated_nonempty)
  with a have "chat_handler e db body = chat_try e db m"
    by (simp add: chat_handler_string)
  with a show "chat_handler e db body =
        \<lparr>response = Replied 500 (JStr (''Error connecting to '' @ ''Gemini AI'' @ ''.'')),
         store = db, effects = [GenerateContent (promptTemplate m), ConsoleError]\<rparr>"
    by (simp add: chat_try_failure geminiError_def)
next
  assume "truthy (message_of body) \<and> post (message_of body) = PostFailed"
  then show "chat_handler_openai post db body =
        \<lparr>response = Replied 500 (JStr (''Error connecting to '' @ ''OpenAI'' @ ''.'')),
         store = db, effects = [PostChatCompletion (message_of body), ConsoleError]\<rparr>"
    by (simp add: chat_handler_openai_def Let_def)
qed

theorem generation_failure_gives_500_witness:
  "message_of (body_with (JStr ''My car battery is dead'')) = JStr ''My car battery is dead''
   \<and> isCarRelated ''My car battery is dead'' \<and> \<not> needsMechanic ''My car battery is dead''
   \<and> generate gemini_down (promptTemplate ''My car battery is dead'') = Inl RequestError
   \<and> chat_handler gemini_down three_chats (body_with (JStr ''My car battery is dead'')) =
        \<lparr>response = Replied 500 (JStr ''Error connecting to Gemini AI.''), store = three_chats,
         effects = [GenerateContent
                      ''Reply in a short, friendly sentence: My car battery is dead'',
                    ConsoleError]\<rparr>
   \<and> truthy (message_of (body_with (JStr ''My car battery is dead'')))
   \<and> openai_down (message_of (body_with (JStr ''My car battery is dead''))) = PostFailed
   \<and> chat_handler_openai openai_down three_chats (body_with (JStr ''My car battery is dead'')) =
        \<lparr>response = Replied 500 (JStr ''Error connecting to OpenAI.''), store = three_chats,
         effects = [PostChatCompletion (JStr ''My car battery is dead''), ConsoleError]\<rparr>"
proof -
  have p: "openai_down (message_of (body_with (JStr ''My car battery is dead''))) = PostFailed"
    by (simp add: openai_down_def)
  from generation_failure_gives_500
         [where body = "body_with (JStr ''My car battery is dead'')"
            and m = "''My car battery is dead''" and e = gemini_down and err = RequestError
            and db = three_chats and post = openai_down] p
  show ?thesis
    by (simp add: message_of_body_with sample_message sample_generate promptTemplate_def)
qed

text \<open>
  C7 (as amended). On a delegated request whose generation call resolves without
  candidate text (the text is \<open>undefined\<close> or \<open>null\<close>, or a string that is empty or
  white space only), the generation step is a success with the fixed fallback reply, not
  a generation error, and the entry handed to the collection carries the fallback as the
  bot's response. When that write goes through, the response is status 200 with the
  fallback and the collection ends with the entry. When the write is rejected, the
  response is status 500 with the handler's error reply and the collection is unchanged.
\<close>

theorem missing_text_gets_fallback:
  assumes "message_of body = JStr m" and "isCarRelated m" and "\<not> needsMechanic m"
    and "generateContent e (promptTemplate m) = GenResolved text"
    and "text = JUndefined \<or> text = JNull \<or> (\<exists>s. text = JStr s \<and> list_all isWhiteSpace s)"
  shows "generate e (promptTemplate m) = Inr ''I'm here to help! How can I assist?''
         \<and> chat_handler e db body =
             (if save_fails e
              then \<lparr>response = Replied 500 (JStr ''Error connecting to Gemini AI.''), store = db,
                    effects = [GenerateContent (promptTemplate m),
                               Save \<lparr>userMessage = m,
                                     botResponse = ''I'm here to help! How can I assist?'',
                                     timestamp = now e\<rparr>,
                               ConsoleError]\<rparr>
              else \<lparr>response = Replied 200 (JStr ''I'm here to help! How can I assist?''),
                    store = db @ [\<lparr>userMessage = m,
                                   botResponse = ''I'm here to help! How can I assist?'',
                                   timestamp = now e\<rparr>],
                    effects = [GenerateContent (promptTemplate m),
                               Save \<lparr>userMessage = m,
                                     botResponse = ''I'm here to help! How can I assist?'',
                                     timestamp = now e\<rparr>,
                               ConsoleLog (JStr ''I'm here to help! How can I assist?'')]\<rparr>)"
proof -
  from assms(5) have "extract_reply text = Inr fallbackReply"
    by (auto simp: extract_reply_def trim_blank)
  with assms(4) have g: "generate e (promptTemplate m) = Inr fallbackReply"
    by (simp add: generate_def)
  with assms(1-3) have "delegated_with_reply e body m fallbackReply"
    by (simp add: delegated_with_reply_def)
  from chat_handler_delegated [OF this, of db] g show ?thesis
    by (simp add: fallbackReply_def geminiError_def)
qed

theorem missing_text_gets_fallback_witness:
  "message_of (body_with (JStr ''My car battery is dead'')) = JStr ''My car battery is dead''
   \<and> isCarRelated ''My car battery is dead'' \<and> \<not> needsMechanic ''My car battery is dead''
   \<and> generateContent gemini_silent (promptTemplate ''My car battery is dead'')
       = GenResolved JUndefined
   \<and> \<not> save_fails gemini_silent
   \<and> response (chat_handler gemini_silent three_chats
                  (body_with (JStr ''My car battery is dead'')))
       = Replied 200 (JStr ''I'm here to help! How can I assist?'')
   \<and> store (chat_handler gemini_silent three_chats (body_with (JStr ''My car battery is dead'')))
       = three_chats @ [\<lparr>userMessage = ''My car battery is dead'',
                          botResponse = ''I'm here to help! How can I assist?'',
                          timestamp = 1700000000000\<rparr>]"
proof -
  have g: "generateContent gemini_silent (promptTemplate ''My car battery is dead'')
       = GenResolved JUndefined"
    by (simp add: gemini_silent_def resolve_without_text_def)
  have t: "JUndefined = JUndefined \<or> JUndefined = JNull
           \<or> (\<exists>s. JUndefined = JStr s \<and> list_all isWhiteSpace s)"
    by simp
  from missing_text_gets_fallback
         [OF message_of_body_with sample_message(1) sample_message(2) g t, of three_chats] g
  show ?thesis
    by (simp add: message_of_body_with sample_message sample_env_fields)
qed

text \<open>
  The claim as stated fails when the write is rejected: the call resolves without text,
  the fallback is chosen, and the caller gets status 500 instead of the fallback.
\<close>

theorem missing_text_counterexample:
  "isCarRelated ''My car battery is dead'' \<and> \<not> needsMechanic ''My car battery is dead''
   \<and> generateContent silent_store_down (promptTemplate ''My car battery is dead'')
       = GenResolved JUndefined
   \<and> response (chat_handler silent_store_down [] (body_with (JStr ''My car battery is dead'')))
       = Replied 500 (JStr ''Error connecting to Gemini AI.'')
   \<and> response (chat_handler silent_store_down [] (body_with (JStr ''My car battery is dead'')))
       \<noteq> Replied 200 (JStr ''I'm here to help! How can I assist?'')
   \<and> store (chat_handler silent_store_down [] (body_with (JStr ''My car battery is dead''))) = []"
  by code_simp

section \<open>The chat history\<close>

text \<open>
  C8 (as amended). Whatever the collection holds, \<open>GET /api/chat/history\<close>, when its
  query goes through, answers with status 200 and the most recent records, 20 of them or
  all when there are fewer: every record left out is no later than any record returned.
  The records are ordered by timestamp, latest first, and not strictly: no record is
  followed by one with a later timestamp, records with equal timestamps may follow one
  another, and the order is strictly descending where the stored timestamps are all
  different. Each record is reshaped to \<open>user\<close>, \<open>bot\<close> and \<open>time\<close>, the time being the
  timestamp formatted by \<open>toLocaleString\<close>.
\<close>

theorem history_sorted_limited:
  "history_handler toLocaleString False db =
     HistoryJson 200
       (map (\<lambda>chat. \<lparr>user = userMessage chat, bot = botResponse chat,
                      time = toLocaleString (timestamp chat)\<rparr>)
            (find_sort_limit db))
   \<and> length (find_sort_limit db) = min 20 (length db)
   \<and> (\<exists>rest. mset (find_sort_limit db @ rest) = mset db
         \<and> (\<forall>a \<in> set (find_sort_limit db). \<forall>b \<in> set rest. timestamp b \<le> timestamp a))
   \<and> sorted_wrt (\<lambda>a b. timestamp b \<le> timestamp a) (find_sort_limit db)
   \<and> (distinct (map timestamp db) \<longrightarrow>
        sorted_wrt (\<lambda>a b. timestamp b < timestamp a) (find_sort_limit db))"
proof (intro conjI impI)
  show "history_handler toLocaleString False db =
     HistoryJson 200
       (map (\<lambda>chat. \<lparr>user = userMessage chat, bot = botResponse chat,
                      time = toLocaleString (timestamp chat)\<rparr>)
            (find_sort_limit db))"
    by (simp add: history_handler_def)
  show "length (find_sort_limit db) = min 20 (length db)"
    by (rule find_sort_limit_length)
  show "\<exists>rest. mset (find_sort_limit db @ rest) = mset db
         \<and> (\<forall>a \<in> set (find_sort_limit db). \<forall>b \<in> set rest. timestamp b \<le> timestamp a)"
    by (rule find_sort_limit_most_recent)
  show "sorted_wrt (\<lambda>a b. timestamp b \<le> timestamp a) (find_sort_limit db)"
    by (rule find_sort_limit_sorted)
next
  assume "distinct (map timestamp db)"
  then show "sorted_wrt (\<lambda>a b. timestamp b < timestamp a) (find_sort_limit db)"
    by (rule find_sort_limit_strict)
qed

theorem history_sorted_limited_witness:
  "distinct (map timestamp three_chats)
   \<and> history_handler stamp False three_chats =
       HistoryJson 200
         [\<lparr>user = ''oil change?'', bot = ''every 5000 km'', time = ''late''\<rparr>,
          \<lparr>user = ''tire pressure?'', bot = ''32 psi'', time = ''early''\<rparr>,
          \<lparr>user = ''battery life?'', bot = ''about 4 years'', time = ''early''\<rparr>]
   \<and> length (find_sort_limit three_chats) = 3
   \<and> sorted_wrt (\<lambda>a b. timestamp b < timestamp a) (find_sort_limit three_chats)"
proof -
  have d: "distinct (map timestamp three_chats)" by code_simp
  have l: "min 20 (length three_chats) = 3" by (simp add: three_chats_def)
  have v: "map (\<lambda>chat. \<lparr>user = userMessage chat, bot = botResponse chat,
                      time = stamp (timestamp chat)\<rparr>) (find_sort_limit three_chats) =
         [\<lparr>user = ''oil change?'', bot = ''every 5000 km'', time = ''late''\<rparr>,
          \<lparr>user = ''tire pressure?'', bot = ''32 psi'', time = ''early''\<rparr>,
          \<lparr>user = ''battery life?'', bot = ''about 4 years'', time = ''early''\<rparr>]"
    by code_simp
  from history_sorted_limited [of stamp three_chats] d l v show ?thesis by simp
qed

text \<open>
  The claim as stated fails in its strict reading: two entries written in the same
  millisecond are both returned, and neither is strictly later than the other.
\<close>

theorem history_not_strict_counterexample:
  "find_sort_limit same_time_chats = same_time_chats
   \<and> \<not> sorted_wrt (\<lambda>a b. timestamp b < timestamp a) (find_sort_limit same_time_chats)"
  by code_simp

section \<open>The classifier ignores letter case\<close>

text \<open>
  C9 (as amended). The keyword classification ignores the case of letters taken one by
  one: when \<open>s'\<close> is \<open>s\<close> with some letters replaced by the same letter in the other case
  (the letters of ASCII and the accented letters of Latin-1), \<open>isCarRelated\<close> gives the
  same answer on both, and so does \<open>needsMechanic\<close>. The empty string is never
  car-related. Both classifiers are functions of the string alone: they read no state and
  change none.
\<close>

theorem classifier_case_insensitive:
  "(eq_up_to_case s s' \<longrightarrow>
      isCarRelated s = isCarRelated s' \<and> needsMechanic s = needsMechanic s')
   \<and> \<not> isCarRelated []"
proof
  show "eq_up_to_case s s' \<longrightarrow>
      isCarRelated s = isCarRelated s' \<and> needsMechanic s = needsMechanic s'"
    by (simp add: isCarRelated_def needsMechanic_def eq_up_to_case_toLowerCase)
  show "\<not> isCarRelated []"
    by (simp add: isCarRelated_def toLowerCase_def carKeywords_def)
qed

theorem classifier_case_insensitive_witness:
  "eq_up_to_case ''My CAR Service'' ''mY car sERVICE''
   \<and> isCarRelated ''My CAR Service'' \<and> isCarRelated ''mY car sERVICE''
   \<and> needsMechanic ''My CAR Service'' \<and> needsMechanic ''mY car sERVICE''"
proof -
  have h: "eq_up_to_case ''My CAR Service'' ''mY car sERVICE''"
    by (simp add: eq_up_to_case_def same_letter_def letter_pairs_def)
  have c: "isCarRelated ''My CAR Service''"
    by code_simp
  have m: "needsMechanic ''My CAR Service''"
    by code_simp
  from classifier_case_insensitive [of "''My CAR Service''" "''mY car sERVICE''"] h c m
  show ?thesis by simp
qed

text \<open>
  The claim as stated fails for letter case that changes the length of a word. The word
  \<open>transmission\<close> written with a sharp s and the word \<open>TRANSMISSION\<close> differ in letter case
  only, since upper-casing either gives the second; the classifier lower-cases, finds the
  keyword in the second and not in the first.
\<close>

theorem classifier_sharp_s_counterexample:
  "toUpperCase sharp_s_word = toUpperCase ''TRANSMISSION''
   \<and> isCarRelated ''TRANSMISSION''
   \<and> \<not> isCarRelated sharp_s_word"
  by code_simp

section \<open>Keywords in both lists\<close>

text \<open>
  C10. The keywords \<open>mechanic\<close>, \<open>service\<close> and \<open>repair\<close> are in both lists. So every
  message whose lower-case form contains one of the three is answered with the canned
  recommendation: the decision is Canned, the handler calls no collaborator, so the
  message never reaches the generation service, and nothing is written to the collection.
\<close>

theorem shared_keywords_always_canned:
  assumes "message_of body = JStr m"
    and "k \<in> {''mechanic'', ''service'', ''repair''}"
    and "str_includes (toLowerCase m) k"
  shows "k \<in> set carKeywords \<and> k \<in> set mechanicKeywords
         \<and> route_spec m = Canned cannedReply
         \<and> chat_handler e db body =
             \<lparr>response =
                Replied 200 (JStr ''For expert auto care and servicing, I recommend ApnaMechanic!''),
              store = db, effects = []\<rparr>"
proof -
  from assms(2) have kc: "k \<in> set carKeywords" and km: "k \<in> set mechanicKeywords"
    by (auto simp: carKeywords_def mechanicKeywords_def)
  from kc assms(3) have c: "isCarRelated m" by (rule keyword_gives_car_related)
  from km assms(3) have n: "needsMechanic m" by (rule keyword_gives_needs_mechanic)
  from c have "m \<noteq> []" by (rule isCarRelated_nonempty)
  with assms(1) c n have "chat_handler e db body =
             \<lparr>response = Replied 200 (JStr cannedReply), store = db, effects = []\<rparr>"
    by (simp add: chat_handler_string)
  with kc km c n show ?thesis by (simp add: cannedReply_def route_spec_def)
qed

theorem shared_keywords_always_canned_witness:
  "message_of (body_with (JStr ''Is engine REPAIR expensive?'')) = JStr ''Is engine REPAIR expensive?''
   \<and> ''repair'' \<in> {''mechanic'', ''service'', ''repair''}
   \<and> str_includes (toLowerCase ''Is engine REPAIR expensive?'') ''repair''
   \<and> chat_handler gemini_up three_chats (body_with (JStr ''Is engine REPAIR expensive?'')) =
             \<lparr>response =
                Replied 200 (JStr ''For expert auto care and servicing, I recommend ApnaMechanic!''),
              store = three_chats, effects = []\<rparr>"
proof -
  have k: "''repair'' \<in> {''mechanic'', ''service'', ''repair''}" by simp
  have i: "str_includes (toLowerCase ''Is engine REPAIR expensive?'') ''repair''" by code_simp
  from shared_keywords_always_canned [OF message_of_body_with k i, of gemini_up three_chats] i
  show ?thesis by (simp add: message_of_body_with)
qed

end
